theory Spec2Isabelle
  imports Complex_Main
begin

section \<open>Values and errors\<close>

text \<open>
  A shallow embedding of \<^verbatim>\<open>orbital/maneuver.py\<close>. Python floats are modelled as
  \<^typ>\<open>real\<close>: the arithmetic of the module is the arithmetic of the reals here, and
  rounding is outside the model. Exceptions are values of the type \<open>error\<close>; a
  computation that may raise returns \<open>error + 'a\<close>, with \<open>Inl\<close> for the exception.
\<close>

datatype error =
    TypeError
  | ValueError
  | KeyError
  | AttributeError
  | NotImplementedError
  | ZeroDivisionError

text \<open>Python's \<^verbatim>\<open>x / y\<close> on floats: a zero divisor raises.\<close>

definition py_div :: "real \<Rightarrow> real \<Rightarrow> error + real" where
  "py_div x y = (if y = 0 then Inl ZeroDivisionError else Inr (x / y))"

section \<open>The collaborators of the module\<close>

text \<open>
  Modelled from the spec: the Orbit class (\<^verbatim>\<open>orbital.elements.KeplerianElements\<close>),
  which the module only receives. The spec's data model gives it the writable attributes
  \<^verbatim>\<open>a\<close>, \<^verbatim>\<open>e\<close>, the anomaly, \<^verbatim>\<open>arg_pe\<close> and the epoch \<^verbatim>\<open>t\<close>, and the attracting
  body's \<^verbatim>\<open>mean_radius\<close>. The record stores the mean anomaly; the true anomaly is read and
  written through the conversions below. The fields carry the prefix \<open>orbit_\<close>, since
  \<open>a\<close>, \<open>e\<close> and \<open>t\<close> are wanted as variable names.
\<close>

record orbit =
  orbit_a :: real
  orbit_e :: real
  orbit_M :: real
  orbit_arg_pe :: real
  orbit_t :: real
  body_mean_radius :: real

text \<open>
  Modelled from the spec: the derived apsis radii of an orbit,
  \<^verbatim>\<open>apocenter_radius = a(1+e)\<close> and \<^verbatim>\<open>pericenter_radius = a(1-e)\<close>.
\<close>

definition apocenter_radius :: "orbit \<Rightarrow> real" where
  "apocenter_radius orbit = orbit_a orbit * (1 + orbit_e orbit)"

definition pericenter_radius :: "orbit \<Rightarrow> real" where
  "pericenter_radius orbit = orbit_a orbit * (1 - orbit_e orbit)"

text \<open>
  What the module reads from the Orbit and from \<^verbatim>\<open>orbital.utilities\<close> without the spec
  fixing a formula is taken as a parameter: the velocity vector \<^verbatim>\<open>orbit.v\<close> (its getter
  and its setter), the period \<^verbatim>\<open>orbit.T\<close>, the mean motion \<^verbatim>\<open>orbit.n\<close>, the true anomaly
  \<^verbatim>\<open>orbit.f\<close>, the mean anomaly the Orbit holds once its epoch is set (the spec leaves
  open whether the Orbit recomputes it), and the two anomaly conversions. \<open>'v\<close> is the
  type of velocity vectors.
\<close>

record 'v collaborators =
  orbit_v :: "orbit \<Rightarrow> 'v"
  set_orbit_v :: "'v \<Rightarrow> orbit \<Rightarrow> orbit"
  orbit_T :: "orbit \<Rightarrow> real"
  orbit_n :: "orbit \<Rightarrow> real"
  orbit_f :: "orbit \<Rightarrow> real"
  M_at_epoch :: "orbit \<Rightarrow> real \<Rightarrow> real"
  mean_anomaly_from_true :: "real \<Rightarrow> real \<Rightarrow> real"
  mean_anomaly_from_eccentric :: "real \<Rightarrow> real \<Rightarrow> real"

text \<open>\<^verbatim>\<open>orbit.f = x\<close>: the anomalies are convertible given \<^verbatim>\<open>e\<close>, and the record stores M.\<close>

definition set_orbit_f :: "'v collaborators \<Rightarrow> real \<Rightarrow> orbit \<Rightarrow> orbit" where
  "set_orbit_f C x orbit = orbit\<lparr>orbit_M := mean_anomaly_from_true C (orbit_e orbit) x\<rparr>"

text \<open>\<^verbatim>\<open>orbit.t = x\<close>: the epoch is set; the anomaly is what the Orbit's propagation gives.\<close>

definition set_orbit_t :: "'v collaborators \<Rightarrow> real \<Rightarrow> orbit \<Rightarrow> orbit" where
  "set_orbit_t C x orbit = orbit\<lparr>orbit_t := x, orbit_M := M_at_epoch C orbit x\<rparr>"

text \<open>
  Modelled from the spec: \<^verbatim>\<open>elements_for_apsides(apocenter_radius, pericenter_radius)\<close>
  of \<^verbatim>\<open>orbital.utilities\<close>, the conversion of an apsis pair to \<open>(a, e)\<close>: the inverse of
  the two apsis formulas above. The quotient raises on a zero sum of the radii.
\<close>

definition elements_for_apsides :: "real \<Rightarrow> real \<Rightarrow> error + real \<times> real" where
  "elements_for_apsides ra rp =
     (case py_div (ra - rp) (ra + rp) of
        Inl err \<Rightarrow> Inl err
      | Inr ecc \<Rightarrow> Inr ((ra + rp) / 2, ecc))"

text \<open>
  Modelled from the spec: \<^verbatim>\<open>orbital.utilities.divmod\<close>, the floor division with
  remainder used for angle wrapping.
\<close>

definition ou_divmod :: "real \<Rightarrow> real \<Rightarrow> real \<times> real" where
  "ou_divmod x y = (of_int \<lfloor>x / y\<rfloor>, x - of_int \<lfloor>x / y\<rfloor> * y)"

text \<open>
  Modelled from the spec: \<^verbatim>\<open>saved_state(orbit)\<close> of \<^verbatim>\<open>orbital.utilities\<close>, the scoped
  snapshot of the orbit's mutable state (elements, anomaly, epoch), restored when the
  block is left, normally or by an exception. The block is a function from the orbit to
  its outcome and the orbit as the block left it.
\<close>

definition restore_state :: "orbit \<Rightarrow> orbit \<Rightarrow> orbit" where
  "restore_state state orbit =
     orbit\<lparr>orbit_a := orbit_a state, orbit_e := orbit_e state, orbit_M := orbit_M state,
           orbit_arg_pe := orbit_arg_pe state, orbit_t := orbit_t state\<rparr>"

definition saved_state :: "(orbit \<Rightarrow> 'r \<times> orbit) \<Rightarrow> orbit \<Rightarrow> 'r \<times> orbit" where
  "saved_state block orbit =
     (let state = orbit;
          (outcome, orbit') = block orbit
      in (outcome, restore_state state orbit'))"

section \<open>Operations\<close>

text \<open>
  \<^verbatim>\<open>self.key\<close> of a time operation is the keyword it was built with: one of
  \<^verbatim>\<open>'M'\<close>, \<^verbatim>\<open>'E'\<close>, \<^verbatim>\<open>'f'\<close>, since the constructor refuses every other name.
\<close>

datatype anomaly_key = Key_M | Key_E | Key_f

text \<open>
  The classes of the module, one constructor each, with the fields their constructors
  store. \<open>OtherImpulse\<close> stands for a subclass of \<^verbatim>\<open>ImpulseOperation\<close> written outside
  the module, which defines \<^verbatim>\<open>velocity_delta\<close> and no \<^verbatim>\<open>__apply__\<close>; \<open>BareOperation\<close> is
  an instance of the base class \<^verbatim>\<open>Operation\<close>, which defines neither.
\<close>

datatype 'v operation =
    SetApocenterRadiusTo real
  | SetApocenterAltitudeTo real
  | ChangeApocenterBy real
  | SetPericenterRadiusTo real
  | SetPericenterAltitudeTo real
  | ChangePericenterBy real
  | PropagateAnomalyTo anomaly_key real
  | PropagateAnomalyBy anomaly_key real
  | Circularise bool
  | SetPericenterHere
  | OtherImpulse "orbit \<Rightarrow> 'v"
  | BareOperation

subsection \<open>Construction of the time operations\<close>

text \<open>
  \<^verbatim>\<open>**kwargs\<close> is a dictionary from keyword names to values, in the order of the call; a
  value is a float or \<^verbatim>\<open>None\<close>. Both constructors run the same checks, in this order:
  unknown names, no keyword at all, more than one value that is not \<^verbatim>\<open>None\<close>; then the
  \<^verbatim>\<open>None\<close> values are dropped and \<^verbatim>\<open>popitem()\<close> takes the last item, raising
  \<^verbatim>\<open>KeyError\<close> on an empty dictionary.
\<close>

type_synonym kwargs = "(string \<times> real option) list"

definition valid_args :: "string list" where
  "valid_args = [''M'', ''E'', ''f'']"

text \<open>The key an accepted keyword name stands for; only the three valid names reach it.\<close>

definition key_of :: "string \<Rightarrow> anomaly_key" where
  "key_of name = (if name = ''f'' then Key_f else if name = ''E'' then Key_E else Key_M)"

text \<open>\<^verbatim>\<open>dict.popitem()\<close>: the item inserted last, or \<^verbatim>\<open>KeyError\<close> on an empty dictionary.\<close>

definition popitem :: "('k \<times> 'x) list \<Rightarrow> error + ('k \<times> 'x)" where
  "popitem d = (case rev d of [] \<Rightarrow> Inl KeyError | item # _ \<Rightarrow> Inr item)"

text \<open>The body shared, line for line, by the two \<^verbatim>\<open>__init__\<close> methods.\<close>

definition anomaly_init :: "kwargs \<Rightarrow> error + (anomaly_key \<times> real)" where
  "anomaly_init kwargs =
     (let extra_args = filter (\<lambda>name. name \<notin> set valid_args) (map fst kwargs) in
      if extra_args \<noteq> [] then Inl TypeError
      else if kwargs = [] then Inl TypeError
      else if length (filter (\<lambda>x. x \<noteq> None) (map snd kwargs)) > 1 then Inl ValueError
      else
        (let kwargs' = concat (map (\<lambda>(key, val). case val of None \<Rightarrow> [] | Some x \<Rightarrow> [(key, x)]) kwargs) in
         case popitem kwargs' of
           Inl err \<Rightarrow> Inl err
         | Inr (key, anomaly) \<Rightarrow> Inr (key_of key, anomaly)))"

definition PropagateAnomalyTo_init :: "kwargs \<Rightarrow> error + 'v operation" where
  "PropagateAnomalyTo_init kwargs =
     (case anomaly_init kwargs of
        Inl err \<Rightarrow> Inl err
      | Inr (key, anomaly) \<Rightarrow> Inr (PropagateAnomalyTo key anomaly))"

definition PropagateAnomalyBy_init :: "kwargs \<Rightarrow> error + 'v operation" where
  "PropagateAnomalyBy_init kwargs =
     (case anomaly_init kwargs of
        Inl err \<Rightarrow> Inl err
      | Inr (key, anomaly) \<Rightarrow> Inr (PropagateAnomalyBy key anomaly))"

subsection \<open>Direct rewrites\<close>

text \<open>
  The three lines every \<^verbatim>\<open>__apply__\<close> of an apsis operation ends with:
  \<^verbatim>\<open>a, e = elements_for_apsides(ra, rp); orbit.a = a; orbit.e = e\<close>. The orbit is written only
  once the conversion has returned.
\<close>

definition rewrite_apsides :: "real \<Rightarrow> real \<Rightarrow> orbit \<Rightarrow> error + orbit" where
  "rewrite_apsides ra rp orbit =
     (case elements_for_apsides ra rp of
        Inl err \<Rightarrow> Inl err
      | Inr (a, e) \<Rightarrow> Inr (orbit\<lparr>orbit_a := a, orbit_e := e\<rparr>))"

text \<open>\<^verbatim>\<open>hasattr(operation, '__apply__') and callable(...)\<close>: the classes that define it.\<close>

fun has_apply :: "'v operation \<Rightarrow> bool" where
  "has_apply (PropagateAnomalyTo key anomaly) = False"
| "has_apply (PropagateAnomalyBy key anomaly) = False"
| "has_apply (OtherImpulse dv) = False"
| "has_apply BareOperation = False"
| "has_apply operation = True"

text \<open>\<^verbatim>\<open>operation.__apply__(orbit)\<close>, class by class; a class without it has no such attribute.\<close>

fun apply_direct :: "'v collaborators \<Rightarrow> 'v operation \<Rightarrow> orbit \<Rightarrow> error + orbit" where
  "apply_direct C (SetApocenterRadiusTo apocenter_radius') orbit =
     rewrite_apsides apocenter_radius' (pericenter_radius orbit) orbit"
| "apply_direct C (SetApocenterAltitudeTo apocenter_altitude) orbit =
     (let apocenter_radius' = body_mean_radius orbit + apocenter_altitude
      in rewrite_apsides apocenter_radius' (pericenter_radius orbit) orbit)"
| "apply_direct C (ChangeApocenterBy delta) orbit =
     rewrite_apsides (apocenter_radius orbit + delta) (pericenter_radius orbit) orbit"
| "apply_direct C (SetPericenterRadiusTo pericenter_radius') orbit =
     rewrite_apsides (apocenter_radius orbit) pericenter_radius' orbit"
| "apply_direct C (SetPericenterAltitudeTo pericenter_altitude) orbit =
     (let pericenter_radius' = body_mean_radius orbit + pericenter_altitude
      in rewrite_apsides (apocenter_radius orbit) pericenter_radius' orbit)"
| "apply_direct C (ChangePericenterBy delta) orbit =
     rewrite_apsides (apocenter_radius orbit) (pericenter_radius orbit + delta) orbit"
| "apply_direct C (Circularise raise_pericenter) orbit =
     (let radius = (if raise_pericenter then apocenter_radius orbit else pericenter_radius orbit)
      in rewrite_apsides radius radius orbit)"
| "apply_direct C SetPericenterHere orbit =
     (let orbit = orbit\<lparr>orbit_arg_pe := orbit_f C orbit\<rparr>
      in Inr (set_orbit_f C 0 orbit))"
| "apply_direct C operation orbit = Inl AttributeError"

subsection \<open>Velocity deltas\<close>

text \<open>
  The block every \<^verbatim>\<open>velocity_delta\<close> runs under \<^verbatim>\<open>saved_state(orbit)\<close>: the anomaly is set
  to the apsis of the burn, the velocity is read, the elements are rewritten for the
  apsis pair of the operation, and the velocity is read again. \<open>apsides\<close> gives the pair
  passed to \<^verbatim>\<open>elements_for_apsides\<close>, read from the orbit inside the block.
\<close>

definition impulse_block ::
  "'v::minus collaborators \<Rightarrow> real \<Rightarrow> (orbit \<Rightarrow> real \<times> real) \<Rightarrow> orbit \<Rightarrow> (error + 'v) \<times> orbit" where
  "impulse_block C M_burn apsides orbit =
     (let orbit = orbit\<lparr>orbit_M := M_burn\<rparr>;
          old_velocity = orbit_v C orbit;
          (ra, rp) = apsides orbit
      in case rewrite_apsides ra rp orbit of
           Inl err \<Rightarrow> (Inl err, orbit)
         | Inr orbit' \<Rightarrow>
             (let new_velocity = orbit_v C orbit'
              in (Inr (new_velocity - old_velocity), orbit')))"

text \<open>\<^verbatim>\<open>operation.velocity_delta(orbit)\<close>: the result, and the orbit as the call leaves it.\<close>

fun velocity_delta ::
  "'v::minus collaborators \<Rightarrow> 'v operation \<Rightarrow> orbit \<Rightarrow> (error + 'v) \<times> orbit" where
  "velocity_delta C (SetApocenterRadiusTo apocenter_radius') orbit =
     saved_state (impulse_block C 0
       (\<lambda>orbit. (apocenter_radius', pericenter_radius orbit))) orbit"
| "velocity_delta C (SetApocenterAltitudeTo apocenter_altitude) orbit =
     saved_state (impulse_block C 0
       (\<lambda>orbit. (body_mean_radius orbit + apocenter_altitude, pericenter_radius orbit))) orbit"
| "velocity_delta C (ChangeApocenterBy delta) orbit =
     saved_state (impulse_block C 0
       (\<lambda>orbit. (apocenter_radius orbit + delta, pericenter_radius orbit))) orbit"
| "velocity_delta C (SetPericenterRadiusTo pericenter_radius') orbit =
     saved_state (impulse_block C pi
       (\<lambda>orbit. (apocenter_radius orbit, pericenter_radius'))) orbit"
| "velocity_delta C (SetPericenterAltitudeTo pericenter_altitude) orbit =
     saved_state (impulse_block C pi
       (\<lambda>orbit. (apocenter_radius orbit, body_mean_radius orbit + pericenter_altitude))) orbit"
| "velocity_delta C (ChangePericenterBy delta) orbit =
     saved_state (impulse_block C pi
       (\<lambda>orbit. (apocenter_radius orbit, pericenter_radius orbit + delta))) orbit"
| "velocity_delta C (Circularise raise_pericenter) orbit =
     saved_state (impulse_block C (if raise_pericenter then pi else 0)
       (\<lambda>orbit. let radius = (if raise_pericenter then apocenter_radius orbit
                                else pericenter_radius orbit)
                in (radius, radius))) orbit"
| "velocity_delta C (OtherImpulse dv) orbit = (Inr (dv orbit), orbit)"
| "velocity_delta C operation orbit = (Inl AttributeError, orbit)"

subsection \<open>Time deltas\<close>

text \<open>\<^verbatim>\<open>PropagateAnomalyTo.time_delta(orbit)\<close>.\<close>

definition PropagateAnomalyTo_time_delta ::
  "'v collaborators \<Rightarrow> anomaly_key \<Rightarrow> real \<Rightarrow> orbit \<Rightarrow> error + real" where
  "PropagateAnomalyTo_time_delta C key anomaly orbit =
     (let M = (case key of
                 Key_f \<Rightarrow> mean_anomaly_from_true C (orbit_e orbit) anomaly
               | Key_E \<Rightarrow> mean_anomaly_from_eccentric C (orbit_e orbit) anomaly
               | Key_M \<Rightarrow> anomaly);
          M = (if M < orbit_M orbit then M + 2 * pi else M)
      in py_div (M - orbit_M orbit) (orbit_n C orbit))"

text \<open>\<^verbatim>\<open>PropagateAnomalyBy.time_delta(orbit)\<close>.\<close>

definition PropagateAnomalyBy_time_delta ::
  "'v collaborators \<Rightarrow> anomaly_key \<Rightarrow> real \<Rightarrow> orbit \<Rightarrow> error + real" where
  "PropagateAnomalyBy_time_delta C key anomaly orbit =
     (case key of
        Key_f \<Rightarrow>
          (let (orbits, f) = ou_divmod anomaly (2 * pi);
               M = mean_anomaly_from_true C (orbit_e orbit) f
           in case py_div M (orbit_n C orbit) of
                Inl err \<Rightarrow> Inl err
              | Inr q \<Rightarrow> Inr (orbits * orbit_T C orbit + q))
      | Key_E \<Rightarrow>
          (let (orbits, E) = ou_divmod anomaly (2 * pi);
               M = mean_anomaly_from_eccentric C (orbit_e orbit) E
           in case py_div M (orbit_n C orbit) of
                Inl err \<Rightarrow> Inl err
              | Inr q \<Rightarrow> Inr (orbits * orbit_T C orbit + q))
      | Key_M \<Rightarrow> py_div anomaly (orbit_n C orbit))"

text \<open>\<^verbatim>\<open>operation.time_delta(orbit)\<close>, class by class.\<close>

fun time_delta :: "'v collaborators \<Rightarrow> 'v operation \<Rightarrow> orbit \<Rightarrow> error + real" where
  "time_delta C (PropagateAnomalyTo key anomaly) orbit =
     PropagateAnomalyTo_time_delta C key anomaly orbit"
| "time_delta C (PropagateAnomalyBy key anomaly) orbit =
     PropagateAnomalyBy_time_delta C key anomaly orbit"
| "time_delta C operation orbit = Inl AttributeError"

text \<open>
  Modelled from the spec: the time delta of \<^verbatim>\<open>PropagateAnomalyBy\<close> as the spec words it,
  for every kind of anomaly: split the amount into whole orbits and a remainder by
  floor division against \<open>2\<pi>\<close>, convert the remainder to a mean anomaly (a mean anomaly
  is one already), and return \<^verbatim>\<open>whole_orbits * T + M_remainder / n\<close>.
\<close>

definition spec_propagate_by ::
  "'v collaborators \<Rightarrow> anomaly_key \<Rightarrow> real \<Rightarrow> orbit \<Rightarrow> error + real" where
  "spec_propagate_by C key anomaly orbit =
     (let (whole_orbits, remainder) = ou_divmod anomaly (2 * pi);
          M_remainder = (case key of
                           Key_f \<Rightarrow> mean_anomaly_from_true C (orbit_e orbit) remainder
                         | Key_E \<Rightarrow> mean_anomaly_from_eccentric C (orbit_e orbit) remainder
                         | Key_M \<Rightarrow> remainder)
      in case py_div M_remainder (orbit_n C orbit) of
           Inl err \<Rightarrow> Inl err
         | Inr q \<Rightarrow> Inr (whole_orbits * orbit_T C orbit + q))"

section \<open>Maneuvers\<close>

text \<open>
  A maneuver holds its list of operations. \<^verbatim>\<open>Maneuver.__init__\<close> wraps an argument that
  is not a list into a list of one.
\<close>

datatype 'v maneuver = Maneuver (operations: "'v operation list")

datatype 'v operations_arg = Single "'v operation" | Listed "'v operation list"

definition Maneuver_init :: "'v operations_arg \<Rightarrow> 'v maneuver" where
  "Maneuver_init arg =
     (let operations = (case arg of Single operation \<Rightarrow> [operation] | Listed ops \<Rightarrow> ops)
      in Maneuver operations)"

subsection \<open>The named constructors\<close>

text \<open>
  Each recipe builds its operations, the time operation through its constructor (which
  may raise), and passes the list to \<^verbatim>\<open>Maneuver.__init__\<close>. \<^verbatim>\<open>Circularise()\<close> is built with
  the default \<^verbatim>\<open>raise_pericenter=True\<close>.
\<close>

definition set_apocenter_radius_to :: "real \<Rightarrow> error + 'v maneuver" where
  "set_apocenter_radius_to apocenter_radius' =
     (case PropagateAnomalyTo_init [(''M'', Some 0)] of
        Inl err \<Rightarrow> Inl err
      | Inr propagate \<Rightarrow>
          Inr (Maneuver_init (Listed [propagate, SetApocenterRadiusTo apocenter_radius'])))"

definition set_pericenter_radius_to :: "real \<Rightarrow> error + 'v maneuver" where
  "set_pericenter_radius_to pericenter_radius' =
     (case PropagateAnomalyTo_init [(''M'', Some pi)] of
        Inl err \<Rightarrow> Inl err
      | Inr propagate \<Rightarrow>
          Inr (Maneuver_init (Listed [propagate, SetPericenterRadiusTo pericenter_radius'])))"

definition set_apocenter_altitude_to :: "real \<Rightarrow> error + 'v maneuver" where
  "set_apocenter_altitude_to apocenter_altitude =
     (case PropagateAnomalyTo_init [(''M'', Some 0)] of
        Inl err \<Rightarrow> Inl err
      | Inr propagate \<Rightarrow>
          Inr (Maneuver_init (Listed [propagate, SetApocenterAltitudeTo apocenter_altitude])))"

definition set_pericenter_altitude_to :: "real \<Rightarrow> error + 'v maneuver" where
  "set_pericenter_altitude_to pericenter_altitude =
     (case PropagateAnomalyTo_init [(''M'', Some pi)] of
        Inl err \<Rightarrow> Inl err
      | Inr propagate \<Rightarrow>
          Inr (Maneuver_init (Listed [propagate, SetPericenterAltitudeTo pericenter_altitude])))"

definition change_apocenter_by :: "real \<Rightarrow> error + 'v maneuver" where
  "change_apocenter_by delta =
     (case PropagateAnomalyTo_init [(''M'', Some 0)] of
        Inl err \<Rightarrow> Inl err
      | Inr propagate \<Rightarrow> Inr (Maneuver_init (Listed [propagate, ChangeApocenterBy delta])))"

definition change_pericenter_by :: "real \<Rightarrow> error + 'v maneuver" where
  "change_pericenter_by delta =
     (case PropagateAnomalyTo_init [(''M'', Some pi)] of
        Inl err \<Rightarrow> Inl err
      | Inr propagate \<Rightarrow> Inr (Maneuver_init (Listed [propagate, ChangePericenterBy delta])))"

definition hohmann_transfer_to :: "orbit \<Rightarrow> error + 'v maneuver" where
  "hohmann_transfer_to orbit =
     (case PropagateAnomalyTo_init [(''M'', Some pi)] of
        Inl err \<Rightarrow> Inl err
      | Inr propagate \<Rightarrow>
          Inr (Maneuver_init (Listed
            [SetPericenterHere,
             SetApocenterRadiusTo (apocenter_radius orbit),
             propagate,
             Circularise True])))"

text \<open>\<^verbatim>\<open>bielliptic_transfer(cls)\<close> takes no orbit and raises before it builds anything.\<close>

definition bielliptic_transfer :: "error + 'v maneuver" where
  "bielliptic_transfer = Inl NotImplementedError"

subsection \<open>Applying a maneuver\<close>

text \<open>\<^verbatim>\<open>isinstance(operation, ImpulseOperation)\<close> and \<^verbatim>\<open>isinstance(operation, TimeOperation)\<close>.\<close>

fun is_ImpulseOperation :: "'v operation \<Rightarrow> bool" where
  "is_ImpulseOperation (PropagateAnomalyTo key anomaly) = False"
| "is_ImpulseOperation (PropagateAnomalyBy key anomaly) = False"
| "is_ImpulseOperation SetPericenterHere = False"
| "is_ImpulseOperation BareOperation = False"
| "is_ImpulseOperation operation = True"

fun is_TimeOperation :: "'v operation \<Rightarrow> bool" where
  "is_TimeOperation (PropagateAnomalyTo key anomaly) = True"
| "is_TimeOperation (PropagateAnomalyBy key anomaly) = True"
| "is_TimeOperation operation = False"

text \<open>
  One turn of the loop of \<^verbatim>\<open>Maneuver.__apply__\<close>: the three branches in the order of the
  source, and no branch for an operation that matches none. The result is the exception
  raised, if any, and the orbit as the turn leaves it. An augmented assignment reads its
  target before the right-hand side is evaluated.
\<close>

definition apply_operation ::
  "'v::{plus,minus} collaborators \<Rightarrow> 'v operation \<Rightarrow> orbit \<Rightarrow> error option \<times> orbit" where
  "apply_operation C operation orbit =
     (if has_apply operation then
        (case apply_direct C operation orbit of
           Inl err \<Rightarrow> (Some err, orbit)
         | Inr orbit' \<Rightarrow> (None, orbit'))
      else if is_ImpulseOperation operation then
        (let v = orbit_v C orbit in
         case velocity_delta C operation orbit of
           (Inl err, orbit') \<Rightarrow> (Some err, orbit')
         | (Inr dv, orbit') \<Rightarrow> (None, set_orbit_v C (v + dv) orbit'))
      else if is_TimeOperation operation then
        (let t = orbit_t orbit in
         case time_delta C operation orbit of
           Inl err \<Rightarrow> (Some err, orbit)
         | Inr dt \<Rightarrow> (None, set_orbit_t C (t + dt) orbit))
      else (None, orbit))"

text \<open>The loop: it stops at the first exception, with the orbit as rewritten so far.\<close>

fun apply_operations ::
  "'v::{plus,minus} collaborators \<Rightarrow> 'v operation list \<Rightarrow> orbit \<Rightarrow> error option \<times> orbit" where
  "apply_operations C [] orbit = (None, orbit)"
| "apply_operations C (operation # rest) orbit =
     (case apply_operation C operation orbit of
        (Some err, orbit') \<Rightarrow> (Some err, orbit')
      | (None, orbit') \<Rightarrow> apply_operations C rest orbit')"

definition Maneuver_apply ::
  "'v::{plus,minus} collaborators \<Rightarrow> 'v maneuver \<Rightarrow> orbit \<Rightarrow> error option \<times> orbit" where
  "Maneuver_apply C maneuver orbit = apply_operations C (operations maneuver) orbit"

text \<open>The operation classes the module itself defines and exports through its recipes.\<close>

fun in_module :: "'v operation \<Rightarrow> bool" where
  "in_module (OtherImpulse dv) = False"
| "in_module BareOperation = False"
| "in_module operation = True"

subsection \<open>A concrete instance\<close>

text \<open>
  Collaborators to evaluate the model on: canonical units on a circular orbit, where the
  period is \<open>2\<pi>\<close>, the mean motion is 1 and the three anomalies coincide; the speed is
  that of the circular orbit of the same semi-major axis, and writing a velocity leaves
  the elements alone.
\<close>

definition canonical :: "real collaborators" where
  "canonical =
     \<lparr>orbit_v = (\<lambda>orbit. 1 / orbit_a orbit),
      set_orbit_v = (\<lambda>v orbit. orbit),
      orbit_T = (\<lambda>orbit. 2 * pi),
      orbit_n = (\<lambda>orbit. 1),
      orbit_f = orbit_M,
      M_at_epoch = (\<lambda>orbit x. orbit_M orbit),
      mean_anomaly_from_true = (\<lambda>e f. f),
      mean_anomaly_from_eccentric = (\<lambda>e E. E)\<rparr>"

definition unit_orbit :: orbit where
  "unit_orbit =
     \<lparr>orbit_a = 1, orbit_e = 0, orbit_M = 0, orbit_arg_pe = 0, orbit_t = 0,
      body_mean_radius = 1 / 2\<rparr>"

section \<open>Construction of the time operations: which keywords are refused\<close>

lemma popitem_raises_iff: "isl (popitem d) \<longleftrightarrow> d = []"
  by (cases "rev d") (auto simp: popitem_def)

lemma dropped_None_length:
  "length (concat (map (\<lambda>(key, val). case val of None \<Rightarrow> [] | Some x \<Rightarrow> [(key, x)]) kwargs))
     = length (filter (\<lambda>x. x \<noteq> None) (map snd kwargs))"
  by (induction kwargs) (auto split: option.splits)

text \<open>
  Construction raises exactly on the keywords the docstring excludes: an unknown name, no
  value that is not \<^verbatim>\<open>None\<close>, or more than one.
\<close>

lemma anomaly_init_raises_iff:
  "isl (anomaly_init kwargs) \<longleftrightarrow>
     (\<exists>name \<in> set (map fst kwargs). name \<notin> set valid_args)
     \<or> length (filter (\<lambda>x. x \<noteq> None) (map snd kwargs)) = 0
     \<or> length (filter (\<lambda>x. x \<noteq> None) (map snd kwargs)) > 1"
proof -
  let ?d = "concat (map (\<lambda>(key, val). case val of None \<Rightarrow> [] | Some x \<Rightarrow> [(key, x)]) kwargs)"
  have len: "length ?d = length (filter (\<lambda>x. x \<noteq> None) (map snd kwargs))"
    by (rule dropped_None_length)
  have extra: "filter (\<lambda>name. name \<notin> set valid_args) (map fst kwargs) \<noteq> []
      \<longleftrightarrow> (\<exists>name \<in> set (map fst kwargs). name \<notin> set valid_args)"
    by (simp add: filter_empty_conv)
  have pop: "isl (popitem ?d) \<longleftrightarrow> length ?d = 0"
    by (simp add: popitem_raises_iff)
  show ?thesis
    unfolding anomaly_init_def Let_def
    using extra pop len
    by (auto split: sum.splits prod.splits simp del: set_map)
qed

text \<open>
  The exception is \<^verbatim>\<open>KeyError\<close>, out of \<^verbatim>\<open>popitem()\<close>, exactly when keywords are given, all
  of them known, and every value is \<^verbatim>\<open>None\<close>: the two checks before it let this case pass.
\<close>

lemma popitem_Inl_iff: "popitem d = Inl err \<longleftrightarrow> d = [] \<and> err = KeyError"
  by (cases "rev d") (auto simp: popitem_def)

lemma anomaly_init_KeyError_iff:
  "anomaly_init kwargs = Inl KeyError \<longleftrightarrow>
     kwargs \<noteq> [] \<and> list_all (\<lambda>name. name \<in> set valid_args) (map fst kwargs)
     \<and> list_all (\<lambda>x. x = None) (map snd kwargs)"
proof -
  define d where
    "d = concat (map (\<lambda>(key, val). case val of None \<Rightarrow> [] | Some x \<Rightarrow> [(key, x)]) kwargs)"
  define extra where "extra = filter (\<lambda>name. name \<notin> set valid_args) (map fst kwargs)"
  define given where "given = filter (\<lambda>x. x \<noteq> None) (map snd kwargs)"
  have len: "length d = length given"
    unfolding d_def given_def by (rule dropped_None_length)
  have none: "given = [] \<longleftrightarrow> list_all (\<lambda>x. x = None) (map snd kwargs)"
    unfolding given_def by (simp add: filter_empty_conv list_all_iff)
  have known: "extra = [] \<longleftrightarrow> list_all (\<lambda>name. name \<in> set valid_args) (map fst kwargs)"
    unfolding extra_def by (simp add: filter_empty_conv list_all_iff)
  have init: "anomaly_init kwargs =
     (if extra \<noteq> [] then Inl TypeError
      else if kwargs = [] then Inl TypeError
      else if length given > 1 then Inl ValueError
      else case popitem d of
             Inl err \<Rightarrow> Inl err
           | Inr (key, anomaly) \<Rightarrow> Inr (key_of key, anomaly))"
    unfolding anomaly_init_def Let_def d_def extra_def given_def by (rule refl)
  have "anomaly_init kwargs = Inl KeyError \<longleftrightarrow> extra = [] \<and> kwargs \<noteq> [] \<and> given = []"
  proof (cases "extra = [] \<and> kwargs \<noteq> [] \<and> \<not> length given > 1")
    case True
    have "(case popitem d of Inl err \<Rightarrow> Inl err | Inr (key, anomaly) \<Rightarrow> Inr (key_of key, anomaly))
        = (Inl KeyError :: error + anomaly_key \<times> real) \<longleftrightarrow> d = []"
    proof (cases "popitem d")
      case (Inl err)
      then have "d = [] \<and> err = KeyError" by (simp add: popitem_Inl_iff)
      then show ?thesis unfolding Inl by simp
    next
      case (Inr item)
      then have "d \<noteq> []" by (auto simp: popitem_def)
      with Inr show ?thesis by (simp add: split_beta)
    qed
    moreover have "d = [] \<longleftrightarrow> given = []"
      using len by (metis length_0_conv)
    ultimately show ?thesis
      using True by (simp add: init)
  next
    case False
    then show ?thesis
      by (auto simp: init)
  qed
  then show ?thesis
    using none known by auto
qed

lemma anomaly_init_examples:
  "anomaly_init [(''M'', Some x), (''E'', None), (''f'', None)] = Inr (Key_M, x)"
  "anomaly_init [(''M'', Some x)] = Inr (Key_M, x)"
  "anomaly_init [(''E'', Some x)] = Inr (Key_E, x)"
  "anomaly_init [(''f'', Some x)] = Inr (Key_f, x)"
  "anomaly_init [] = Inl TypeError"
  "anomaly_init [(''M'', Some x), (''f'', Some y)] = Inl ValueError"
  "anomaly_init [(''x'', Some x)] = Inl TypeError"
  by (simp_all add: anomaly_init_def valid_args_def popitem_def key_of_def)

text \<open>
  C3. Keywords that are all \<^verbatim>\<open>None\<close> do make both constructors raise, but the exception
  is the \<^verbatim>\<open>KeyError\<close> of \<^verbatim>\<open>popitem()\<close> on the emptied dictionary, not one of the argument
  errors (\<^verbatim>\<open>TypeError\<close>, \<^verbatim>\<open>ValueError\<close>) that the constructor raises for the other invalid
  keywords: \<^verbatim>\<open>PropagateAnomalyTo(M=None)\<close>, \<^verbatim>\<open>PropagateAnomalyBy(M=None)\<close>, and the same with
  all three keywords given as \<^verbatim>\<open>None\<close>.
\<close>

theorem time_operation_all_None_raises_KeyError:
  "PropagateAnomalyTo_init [(''M'', None)] = (Inl KeyError :: error + 'v operation)
   \<and> PropagateAnomalyBy_init [(''M'', None)] = (Inl KeyError :: error + 'v operation)
   \<and> PropagateAnomalyTo_init [(''M'', None), (''E'', None), (''f'', None)]
        = (Inl KeyError :: error + 'v operation)
   \<and> PropagateAnomalyBy_init [(''M'', None), (''E'', None), (''f'', None)]
        = (Inl KeyError :: error + 'v operation)"
  by (simp add: PropagateAnomalyTo_init_def PropagateAnomalyBy_init_def anomaly_init_def
      valid_args_def popitem_def)

section \<open>Velocity deltas leave the orbit as it was\<close>

lemma impulse_block_body:
  "body_mean_radius (snd (impulse_block C M_burn apsides orbit)) = body_mean_radius orbit"
  by (auto simp: impulse_block_def Let_def rewrite_apsides_def split: sum.splits prod.splits)

lemma restore_state_same_body:
  "body_mean_radius orbit' = body_mean_radius state \<Longrightarrow> restore_state state orbit' = state"
  by (simp add: restore_state_def)

lemma saved_state_impulse_block:
  "snd (saved_state (impulse_block C M_burn apsides) orbit) = orbit"
  by (simp add: saved_state_def Let_def split_beta restore_state_same_body impulse_block_body)

text \<open>
  An abnormal exit of the block: lowering the pericenter of the unit circular orbit to
  radius \<open>-1\<close> makes the conversion divide by zero, after the block has moved the anomaly
  to \<open>\<pi>\<close>; the caller sees the exception and the orbit it passed in.
\<close>

lemma velocity_delta_abnormal_exit:
  "snd (impulse_block canonical pi (\<lambda>orbit. (apocenter_radius orbit, - 1)) unit_orbit)
     \<noteq> unit_orbit"
  "velocity_delta canonical (SetPericenterRadiusTo (- 1)) unit_orbit
     = (Inl ZeroDivisionError, unit_orbit)"
proof -
  have "orbit_M (snd (impulse_block canonical pi (\<lambda>orbit. (apocenter_radius orbit, - 1)) unit_orbit)) = pi"
    by (simp add: impulse_block_def rewrite_apsides_def elements_for_apsides_def py_div_def
        apocenter_radius_def unit_orbit_def)
  moreover have "orbit_M unit_orbit = 0"
    by (simp add: unit_orbit_def)
  ultimately show "snd (impulse_block canonical pi (\<lambda>orbit. (apocenter_radius orbit, - 1)) unit_orbit)
     \<noteq> unit_orbit"
    by (metis pi_neq_zero)
  show "velocity_delta canonical (SetPericenterRadiusTo (- 1)) unit_orbit
     = (Inl ZeroDivisionError, unit_orbit)"
    by (simp add: saved_state_def impulse_block_def rewrite_apsides_def elements_for_apsides_def
        py_div_def apocenter_radius_def unit_orbit_def restore_state_def)
qed

text \<open>
  C2. For each of the seven impulse operations of the module, \<^verbatim>\<open>velocity_delta(orbit)\<close>
  returns with the orbit equal to the orbit it was given, in every field (so \<^verbatim>\<open>a\<close>, \<^verbatim>\<open>e\<close>,
  \<^verbatim>\<open>M\<close>, \<^verbatim>\<open>t\<close> and the velocity read from them are unchanged), whether the call returns a
  delta or raises.
\<close>

theorem velocity_delta_restores_orbit:
  "snd (velocity_delta C (SetApocenterRadiusTo r) orbit) = orbit
   \<and> snd (velocity_delta C (SetApocenterAltitudeTo h) orbit) = orbit
   \<and> snd (velocity_delta C (ChangeApocenterBy d) orbit) = orbit
   \<and> snd (velocity_delta C (SetPericenterRadiusTo r) orbit) = orbit
   \<and> snd (velocity_delta C (SetPericenterAltitudeTo h) orbit) = orbit
   \<and> snd (velocity_delta C (ChangePericenterBy d) orbit) = orbit
   \<and> snd (velocity_delta C (Circularise b) orbit) = orbit"
  by (simp add: saved_state_impulse_block)

lemma orbit_update_order:
  "orbit\<lparr>orbit_M := m, orbit_a := a, orbit_e := e\<rparr> = orbit\<lparr>orbit_a := a, orbit_e := e, orbit_M := m\<rparr>"
  by (cases orbit) simp

text \<open>
  Both paths of an impulse operation aim at the same elements: the delta is the velocity
  of the directly rewritten orbit minus the velocity of the given orbit, both read at the
  apsis of the burn, and the delta raises exactly when the direct rewrite does.
\<close>

lemma saved_state_impulse_block_delta:
  "fst (saved_state (impulse_block C M_burn apsides) orbit) =
     (case rewrite_apsides (fst (apsides (orbit\<lparr>orbit_M := M_burn\<rparr>)))
             (snd (apsides (orbit\<lparr>orbit_M := M_burn\<rparr>))) orbit of
        Inl err \<Rightarrow> Inl err
      | Inr orbit' \<Rightarrow>
          Inr (orbit_v C (orbit'\<lparr>orbit_M := M_burn\<rparr>) - orbit_v C (orbit\<lparr>orbit_M := M_burn\<rparr>)))"
  by (auto simp: saved_state_def impulse_block_def Let_def split_beta rewrite_apsides_def
      orbit_update_order split: sum.splits)

lemma velocity_delta_targets_direct_rewrite:
  fixes C :: "'v::minus collaborators"
  defines "delta_between \<equiv> (\<lambda>M_burn orbit result.
     case result of
       Inl err \<Rightarrow> Inl err
     | Inr orbit' \<Rightarrow>
         Inr (orbit_v C (orbit'\<lparr>orbit_M := M_burn\<rparr>) - orbit_v C (orbit\<lparr>orbit_M := M_burn\<rparr>)))"
  shows "fst (velocity_delta C (SetApocenterRadiusTo r) orbit)
           = delta_between 0 orbit (apply_direct C (SetApocenterRadiusTo r) orbit)"
    and "fst (velocity_delta C (SetApocenterAltitudeTo h) orbit)
           = delta_between 0 orbit (apply_direct C (SetApocenterAltitudeTo h) orbit)"
    and "fst (velocity_delta C (ChangeApocenterBy d) orbit)
           = delta_between 0 orbit (apply_direct C (ChangeApocenterBy d) orbit)"
    and "fst (velocity_delta C (SetPericenterRadiusTo r) orbit)
           = delta_between pi orbit (apply_direct C (SetPericenterRadiusTo r) orbit)"
    and "fst (velocity_delta C (SetPericenterAltitudeTo h) orbit)
           = delta_between pi orbit (apply_direct C (SetPericenterAltitudeTo h) orbit)"
    and "fst (velocity_delta C (ChangePericenterBy d) orbit)
           = delta_between pi orbit (apply_direct C (ChangePericenterBy d) orbit)"
    and "fst (velocity_delta C (Circularise b) orbit)
           = delta_between (if b then pi else 0) orbit (apply_direct C (Circularise b) orbit)"
  by (simp_all add: delta_between_def saved_state_impulse_block_delta apocenter_radius_def
      pericenter_radius_def Let_def)


section \<open>Time deltas\<close>

text \<open>
  C4. On an orbit of positive mean motion, with the target and the orbit's mean anomaly
  both in \<open>[0, 2\<pi>)\<close>, \<^verbatim>\<open>PropagateAnomalyTo(M=target).time_delta(orbit)\<close> returns
  \<open>(M' - orbit.M) / orbit.n\<close>, where \<open>M'\<close> is the target plus one revolution if the
  target is less than \<open>orbit.M\<close> and the target itself otherwise; the value is at least
  0, less than one period \<open>2\<pi> / n\<close>, and 0 exactly when the target equals \<open>orbit.M\<close>.
\<close>

theorem PropagateAnomalyTo_M_time_delta:
  assumes "0 \<le> target" and "target < 2 * pi"
    and "0 \<le> orbit_M orbit" and "orbit_M orbit < 2 * pi"
    and "0 < orbit_n C orbit"
  shows "\<exists>dt. PropagateAnomalyTo_time_delta C Key_M target orbit = Inr dt
      \<and> dt = ((if target < orbit_M orbit then target + 2 * pi else target) - orbit_M orbit)
               / orbit_n C orbit
      \<and> 0 \<le> dt \<and> dt < 2 * pi / orbit_n C orbit
      \<and> (dt = 0 \<longleftrightarrow> target = orbit_M orbit)"
  using assms
  by (auto simp: PropagateAnomalyTo_time_delta_def py_div_def Let_def divide_less_cancel
        intro!: divide_nonneg_pos)

theorem PropagateAnomalyTo_M_time_delta_witness:
  "(0::real) \<le> 0 \<and> (0::real) < 2 * pi
   \<and> 0 \<le> orbit_M (unit_orbit\<lparr>orbit_M := 1\<rparr>) \<and> orbit_M (unit_orbit\<lparr>orbit_M := 1\<rparr>) < 2 * pi
   \<and> 0 < orbit_n canonical (unit_orbit\<lparr>orbit_M := 1\<rparr>)
   \<and> PropagateAnomalyTo_time_delta canonical Key_M 0 (unit_orbit\<lparr>orbit_M := 1\<rparr>)
       = Inr (2 * pi - 1)"
proof -
  have M: "orbit_M (unit_orbit\<lparr>orbit_M := 1\<rparr>) = 1"
    by simp
  have n: "orbit_n canonical (unit_orbit\<lparr>orbit_M := 1\<rparr>) = 1"
    by (simp add: canonical_def)
  have lt: "(1::real) < 2 * pi"
    using pi_ge_two by simp
  have "\<exists>dt. PropagateAnomalyTo_time_delta canonical Key_M 0 (unit_orbit\<lparr>orbit_M := 1\<rparr>) = Inr dt
      \<and> dt = ((if 0 < orbit_M (unit_orbit\<lparr>orbit_M := 1\<rparr>) then 0 + 2 * pi else 0)
               - orbit_M (unit_orbit\<lparr>orbit_M := 1\<rparr>))
               / orbit_n canonical (unit_orbit\<lparr>orbit_M := 1\<rparr>)
      \<and> 0 \<le> dt \<and> dt < 2 * pi / orbit_n canonical (unit_orbit\<lparr>orbit_M := 1\<rparr>)
      \<and> (dt = 0 \<longleftrightarrow> 0 = orbit_M (unit_orbit\<lparr>orbit_M := 1\<rparr>))"
    by (rule PropagateAnomalyTo_M_time_delta) (simp_all add: M n lt)
  then show ?thesis
    using lt by (auto simp: M n)
qed

lemma ou_divmod_recompose: "ou_divmod x y = (q, r) \<Longrightarrow> x = q * y + r"
  by (auto simp: ou_divmod_def)

text \<open>
  C5. On an orbit whose mean motion is \<open>2\<pi> / T\<close> for its period \<open>T \<noteq> 0\<close>,
  \<^verbatim>\<open>PropagateAnomalyBy.time_delta\<close> returns, for every kind of anomaly and every amount,
  what the spec's wording computes: the amount split into whole orbits and a remainder by
  floor division against \<open>2\<pi>\<close>, only the remainder converted to a mean anomaly, and
  \<open>whole_orbits * T + M_remainder / n\<close> returned. In particular
  \<^verbatim>\<open>PropagateAnomalyBy(M=3*2\<pi> + 0.5)\<close> gives \<open>3T + 0.5/n\<close>.
\<close>

theorem PropagateAnomalyBy_refines_spec:
  assumes "orbit_T C orbit \<noteq> 0"
    and "orbit_n C orbit = 2 * pi / orbit_T C orbit"
  shows "PropagateAnomalyBy_time_delta C key anomaly orbit = spec_propagate_by C key anomaly orbit
    \<and> PropagateAnomalyBy_time_delta C Key_M (3 * (2 * pi) + 1 / 2) orbit
        = Inr (3 * orbit_T C orbit + (1 / 2) / orbit_n C orbit)"
proof
  have n0: "orbit_n C orbit \<noteq> 0"
    using assms by simp
  have T: "orbit_T C orbit = 2 * pi / orbit_n C orbit"
    using assms by simp
  show "PropagateAnomalyBy_time_delta C key anomaly orbit = spec_propagate_by C key anomaly orbit"
  proof (cases key)
    case Key_M
    obtain q r where qr: "ou_divmod anomaly (2 * pi) = (q, r)"
      by (cases "ou_divmod anomaly (2 * pi)")
    from ou_divmod_recompose[OF qr] have "anomaly = q * (2 * pi) + r" .
    then have "anomaly / orbit_n C orbit = q * orbit_T C orbit + r / orbit_n C orbit"
      using n0 T by (simp add: field_simps)
    then show ?thesis
      using Key_M qr n0
      by (simp add: PropagateAnomalyBy_time_delta_def spec_propagate_by_def py_div_def)
  qed (simp_all add: PropagateAnomalyBy_time_delta_def spec_propagate_by_def)
  show "PropagateAnomalyBy_time_delta C Key_M (3 * (2 * pi) + 1 / 2) orbit
        = Inr (3 * orbit_T C orbit + (1 / 2) / orbit_n C orbit)"
    using n0 T by (simp add: PropagateAnomalyBy_time_delta_def py_div_def field_simps)
qed

theorem PropagateAnomalyBy_refines_spec_witness:
  "orbit_T canonical unit_orbit \<noteq> 0
   \<and> orbit_n canonical unit_orbit = 2 * pi / orbit_T canonical unit_orbit
   \<and> PropagateAnomalyBy_time_delta canonical Key_f 7 unit_orbit
       = spec_propagate_by canonical Key_f 7 unit_orbit
   \<and> PropagateAnomalyBy_time_delta canonical Key_M (3 * (2 * pi) + 1 / 2) unit_orbit
       = Inr (3 * (2 * pi) + 1 / 2)"
proof -
  have T: "orbit_T canonical unit_orbit = 2 * pi" and n: "orbit_n canonical unit_orbit = 1"
    by (simp_all add: canonical_def)
  have "PropagateAnomalyBy_time_delta canonical Key_f 7 unit_orbit
          = spec_propagate_by canonical Key_f 7 unit_orbit
      \<and> PropagateAnomalyBy_time_delta canonical Key_M (3 * (2 * pi) + 1 / 2) unit_orbit
          = Inr (3 * orbit_T canonical unit_orbit + (1 / 2) / orbit_n canonical unit_orbit)"
    by (rule PropagateAnomalyBy_refines_spec) (simp_all add: T n)
  then show ?thesis
    by (simp add: T n)
qed

text \<open>
  C10. On an orbit of non-zero mean motion, \<^verbatim>\<open>PropagateAnomalyBy(M=x).time_delta(orbit)\<close>
  returns \<open>x / orbit.n\<close> for every real \<open>x\<close>: nothing is wrapped or floored, and neither
  the period nor the anomaly conversions (the only readers of the eccentricity) take part
  in the result. With a positive mean motion a negative \<open>x\<close> gives a negative time delta.
\<close>

theorem PropagateAnomalyBy_M_no_wrap:
  assumes "orbit_n C orbit \<noteq> 0"
  shows "PropagateAnomalyBy_time_delta C Key_M x orbit = Inr (x / orbit_n C orbit)
    \<and> PropagateAnomalyBy_time_delta
         (C\<lparr>orbit_T := T', mean_anomaly_from_true := g, mean_anomaly_from_eccentric := h\<rparr>)
         Key_M x orbit
       = PropagateAnomalyBy_time_delta C Key_M x orbit
    \<and> (0 < orbit_n C orbit \<and> x < 0 \<longrightarrow>
         (\<exists>dt. PropagateAnomalyBy_time_delta C Key_M x orbit = Inr dt \<and> dt < 0))"
  using assms
  by (simp add: PropagateAnomalyBy_time_delta_def py_div_def divide_neg_pos)

theorem PropagateAnomalyBy_M_no_wrap_witness:
  "orbit_n canonical unit_orbit \<noteq> 0
   \<and> 0 < orbit_n canonical unit_orbit \<and> (- 7 :: real) < 0
   \<and> PropagateAnomalyBy_time_delta canonical Key_M (- 7) unit_orbit = Inr (- 7)
   \<and> (\<exists>dt. PropagateAnomalyBy_time_delta canonical Key_M (- 7) unit_orbit = Inr dt \<and> dt < 0)"
proof -
  have n: "orbit_n canonical unit_orbit = 1"
    by (simp add: canonical_def)
  have "orbit_n canonical unit_orbit \<noteq> 0"
    by (simp add: n)
  from PropagateAnomalyBy_M_no_wrap[OF this, of "- 7"] show ?thesis
    by (simp add: n)
qed


section \<open>Circularising\<close>

lemma elements_for_apsides_Inr:
  "ra + rp \<noteq> 0 \<Longrightarrow> elements_for_apsides ra rp = Inr ((ra + rp) / 2, (ra - rp) / (ra + rp))"
  by (simp add: elements_for_apsides_def py_div_def)

lemma rewrite_apsides_circle:
  "radius \<noteq> 0 \<Longrightarrow>
     rewrite_apsides radius radius orbit = Inr (orbit\<lparr>orbit_a := radius, orbit_e := 0\<rparr>)"
  by (simp add: rewrite_apsides_def elements_for_apsides_Inr)

text \<open>The apsis radii of the elements that \<^verbatim>\<open>elements_for_apsides\<close> returns are its arguments.\<close>

lemma apsides_roundtrip:
  fixes ra rp :: real
  assumes "ra + rp \<noteq> 0"
  shows "(ra + rp) / 2 * (1 + (ra - rp) / (ra + rp)) = ra"
    and "(ra + rp) / 2 * (1 - (ra - rp) / (ra + rp)) = rp"
proof -
  have "1 + (ra - rp) / (ra + rp) = 2 * ra / (ra + rp)"
    using assms by (simp add: field_simps)
  then show "(ra + rp) / 2 * (1 + (ra - rp) / (ra + rp)) = ra"
    using assms by simp
  have "1 - (ra - rp) / (ra + rp) = 2 * rp / (ra + rp)"
    using assms by (simp add: field_simps)
  then show "(ra + rp) / 2 * (1 - (ra - rp) / (ra + rp)) = rp"
    using assms by simp
qed

text \<open>
  C7. On an elliptical orbit (\<open>0 < a\<close>, \<open>0 \<le> e < 1\<close>), \<^verbatim>\<open>Circularise(raise_pericenter=True)\<close>,
  applied directly or through a maneuver, returns an orbit whose pericenter and apocenter
  radii are equal, both the apocenter radius of the given orbit, with eccentricity 0;
  \<^verbatim>\<open>Circularise(raise_pericenter=False)\<close> does the same with the pericenter radius of the
  given orbit.
\<close>

theorem Circularise_apsides:
  assumes "0 < orbit_a orbit" and "0 \<le> orbit_e orbit" and "orbit_e orbit < 1"
  shows "(\<exists>orbit'. apply_direct C (Circularise True) orbit = Inr orbit'
            \<and> Maneuver_apply C (Maneuver_init (Single (Circularise True))) orbit = (None, orbit')
            \<and> pericenter_radius orbit' = apocenter_radius orbit'
            \<and> apocenter_radius orbit' = apocenter_radius orbit
            \<and> orbit_e orbit' = 0)
       \<and> (\<exists>orbit'. apply_direct C (Circularise False) orbit = Inr orbit'
            \<and> Maneuver_apply C (Maneuver_init (Single (Circularise False))) orbit = (None, orbit')
            \<and> pericenter_radius orbit' = apocenter_radius orbit'
            \<and> apocenter_radius orbit' = pericenter_radius orbit
            \<and> orbit_e orbit' = 0)"
proof -
  have apo: "apocenter_radius orbit \<noteq> 0"
    using assms by (simp add: apocenter_radius_def)
  have peri: "pericenter_radius orbit \<noteq> 0"
    using assms by (simp add: pericenter_radius_def)
  show ?thesis
    using apo peri
    by (simp add: rewrite_apsides_circle Maneuver_apply_def Maneuver_init_def apply_operation_def
        apocenter_radius_def pericenter_radius_def)
qed

theorem Circularise_apsides_witness:
  "0 < orbit_a (unit_orbit\<lparr>orbit_a := 2, orbit_e := 1 / 2\<rparr>)
   \<and> 0 \<le> orbit_e (unit_orbit\<lparr>orbit_a := 2, orbit_e := 1 / 2\<rparr>)
   \<and> orbit_e (unit_orbit\<lparr>orbit_a := 2, orbit_e := 1 / 2\<rparr>) < 1
   \<and> (\<exists>orbit'. apply_direct canonical (Circularise True)
                   (unit_orbit\<lparr>orbit_a := 2, orbit_e := 1 / 2\<rparr>) = Inr orbit'
          \<and> pericenter_radius orbit' = 3 \<and> apocenter_radius orbit' = 3)
   \<and> (\<exists>orbit'. apply_direct canonical (Circularise False)
                   (unit_orbit\<lparr>orbit_a := 2, orbit_e := 1 / 2\<rparr>) = Inr orbit'
          \<and> pericenter_radius orbit' = 1 \<and> apocenter_radius orbit' = 1)"
proof -
  let ?orbit = "unit_orbit\<lparr>orbit_a := 2, orbit_e := 1 / 2\<rparr>"
  have a: "0 < orbit_a ?orbit" and e0: "0 \<le> orbit_e ?orbit" and e1: "orbit_e ?orbit < 1"
    by simp_all
  have apo: "apocenter_radius ?orbit = 3" and peri: "pericenter_radius ?orbit = 1"
    by (simp_all add: apocenter_radius_def pericenter_radius_def)
  from Circularise_apsides[OF a e0 e1, of canonical] show ?thesis
    unfolding apo peri using a e0 e1 by auto
qed

section \<open>The recipes\<close>

lemma PropagateAnomalyTo_init_M:
  "PropagateAnomalyTo_init [(''M'', Some x)] = Inr (PropagateAnomalyTo Key_M x)"
  by (simp add: PropagateAnomalyTo_init_def anomaly_init_def valid_args_def popitem_def key_of_def)

lemma hohmann_operations:
  "hohmann_transfer_to target =
     Inr (Maneuver [SetPericenterHere, SetApocenterRadiusTo (apocenter_radius target),
                    PropagateAnomalyTo Key_M pi, Circularise True])"
  by (simp add: hohmann_transfer_to_def PropagateAnomalyTo_init_M Maneuver_init_def)

text \<open>The two-operation recipes: the coast to the apsis of the burn, then the burn.\<close>

lemma apsis_recipes:
  "set_apocenter_radius_to r = Inr (Maneuver [PropagateAnomalyTo Key_M 0, SetApocenterRadiusTo r])"
  "set_pericenter_radius_to r = Inr (Maneuver [PropagateAnomalyTo Key_M pi, SetPericenterRadiusTo r])"
  "set_apocenter_altitude_to h = Inr (Maneuver [PropagateAnomalyTo Key_M 0, SetApocenterAltitudeTo h])"
  "set_pericenter_altitude_to h = Inr (Maneuver [PropagateAnomalyTo Key_M pi, SetPericenterAltitudeTo h])"
  "change_apocenter_by d = Inr (Maneuver [PropagateAnomalyTo Key_M 0, ChangeApocenterBy d])"
  "change_pericenter_by d = Inr (Maneuver [PropagateAnomalyTo Key_M pi, ChangePericenterBy d])"
  by (simp_all add: set_apocenter_radius_to_def set_pericenter_radius_to_def
      set_apocenter_altitude_to_def set_pericenter_altitude_to_def change_apocenter_by_def
      change_pericenter_by_def PropagateAnomalyTo_init_M Maneuver_init_def)

text \<open>
  C6. \<^verbatim>\<open>hohmann_transfer_to(target)\<close> is the maneuver of the four operations
  \<^verbatim>\<open>SetPericenterHere()\<close>, \<^verbatim>\<open>SetApocenterRadiusTo(target.apocenter_radius)\<close>,
  \<^verbatim>\<open>PropagateAnomalyTo(M=\<pi>)\<close>, \<^verbatim>\<open>Circularise()\<close>, in this order. Applied to a circular orbit
  of radius \<open>r1 > 0\<close>, for a circular target of radius \<open>r2 > r1\<close>, it runs without an
  exception; the first two operations leave the transfer ellipse (semi-major axis
  \<open>(r1 + r2) / 2\<close>, pericenter at the current position), and the whole maneuver leaves
  an orbit of apocenter radius \<open>r2\<close> and eccentricity 0 whose epoch is later by half the
  period of the transfer ellipse. The Orbit is taken to convert a true anomaly of 0 on
  the circular orbit to a mean anomaly of 0, and to have mean motion \<open>2\<pi> / T\<close> for a
  positive period \<open>T\<close> on the transfer ellipse.
\<close>

theorem hohmann_transfer:
  fixes C :: "'v::{plus,minus} collaborators"
  assumes r: "0 < r1" "r1 < r2"
    and circ: "orbit_a orbit = r1" "orbit_e orbit = 0"
    and tgt: "orbit_a target = r2" "orbit_e target = 0"
    and peri: "mean_anomaly_from_true C 0 0 = 0"
    and tr: "transfer = orbit\<lparr>orbit_a := (r2 + r1) / 2, orbit_e := (r2 - r1) / (r2 + r1),
                               orbit_M := 0, orbit_arg_pe := orbit_f C orbit\<rparr>"
    and T: "0 < orbit_T C transfer" "orbit_n C transfer = 2 * pi / orbit_T C transfer"
  shows "\<exists>maneuver orbit'.
           hohmann_transfer_to target = Inr maneuver
         \<and> operations maneuver =
             [SetPericenterHere, SetApocenterRadiusTo (apocenter_radius target),
              PropagateAnomalyTo Key_M pi, Circularise True]
         \<and> apply_operations C (take 2 (operations maneuver)) orbit = (None, transfer)
         \<and> Maneuver_apply C maneuver orbit = (None, orbit')
         \<and> apocenter_radius orbit' = r2
         \<and> orbit_e orbit' = 0
         \<and> orbit_t orbit' = orbit_t orbit + orbit_T C transfer / 2"
proof -
  let ?ops = "[SetPericenterHere, SetApocenterRadiusTo (apocenter_radius target),
               PropagateAnomalyTo Key_M pi, Circularise True] :: 'v operation list"
  have apo_t: "apocenter_radius target = r2"
    using tgt by (simp add: apocenter_radius_def)
  let ?o1 = "orbit\<lparr>orbit_arg_pe := orbit_f C orbit, orbit_M := 0\<rparr>"
  have step1: "apply_operation C SetPericenterHere orbit = (None, ?o1)"
    using circ peri by (simp add: apply_operation_def set_orbit_f_def)
  have sum: "r2 + r1 \<noteq> 0"
    using r by simp
  have step2: "apply_operation C (SetApocenterRadiusTo r2) ?o1 = (None, transfer)"
    using circ sum
    by (simp add: apply_operation_def rewrite_apsides_def elements_for_apsides_Inr
        pericenter_radius_def tr)
  have n: "orbit_n C transfer \<noteq> 0"
    using T by simp
  have dt: "PropagateAnomalyTo_time_delta C Key_M pi transfer = Inr (orbit_T C transfer / 2)"
    using T n by (simp add: PropagateAnomalyTo_time_delta_def py_div_def tr)
  let ?o3 = "set_orbit_t C (orbit_t transfer + orbit_T C transfer / 2) transfer"
  have step3: "apply_operation C (PropagateAnomalyTo Key_M pi) transfer = (None, ?o3)"
    by (simp add: apply_operation_def dt)
  have apo3: "apocenter_radius ?o3 = r2"
    using apsides_roundtrip(1)[OF sum]
    by (simp add: apocenter_radius_def set_orbit_t_def tr)
  have r2: "r2 \<noteq> 0"
    using r by simp
  have step4: "apply_operation C (Circularise True) ?o3
      = (None, ?o3\<lparr>orbit_a := r2, orbit_e := 0\<rparr>)"
    using r2 by (simp add: apply_operation_def apo3 rewrite_apsides_circle)
  have t3: "orbit_t transfer = orbit_t orbit"
    by (simp add: tr)
  have run: "apply_operations C ?ops orbit = (None, ?o3\<lparr>orbit_a := r2, orbit_e := 0\<rparr>)"
    by (simp add: apo_t step1 step2 step3 step4)
  have first: "apply_operations C (take 2 ?ops) orbit = (None, transfer)"
    by (simp add: apo_t step1 step2)
  show ?thesis
    apply (rule exI[of _ "Maneuver ?ops"])
    apply (rule exI[of _ "?o3\<lparr>orbit_a := r2, orbit_e := 0\<rparr>"])
    apply (simp only: hohmann_operations maneuver.sel Maneuver_apply_def run first)
    apply (simp add: apocenter_radius_def set_orbit_t_def t3)
    done
qed

theorem hohmann_transfer_witness:
  "(0::real) < 1 \<and> (1::real) < 2
   \<and> orbit_a unit_orbit = 1 \<and> orbit_e unit_orbit = 0
   \<and> orbit_a (unit_orbit\<lparr>orbit_a := 2\<rparr>) = 2 \<and> orbit_e (unit_orbit\<lparr>orbit_a := 2\<rparr>) = 0
   \<and> mean_anomaly_from_true canonical 0 0 = 0
   \<and> 0 < orbit_T canonical (unit_orbit\<lparr>orbit_a := 3 / 2, orbit_e := 1 / 3\<rparr>)
   \<and> orbit_n canonical (unit_orbit\<lparr>orbit_a := 3 / 2, orbit_e := 1 / 3\<rparr>)
       = 2 * pi / orbit_T canonical (unit_orbit\<lparr>orbit_a := 3 / 2, orbit_e := 1 / 3\<rparr>)
   \<and> (\<exists>maneuver orbit'.
         hohmann_transfer_to (unit_orbit\<lparr>orbit_a := 2\<rparr>) = Inr maneuver
       \<and> apply_operations canonical (take 2 (operations maneuver)) unit_orbit
           = (None, unit_orbit\<lparr>orbit_a := 3 / 2, orbit_e := 1 / 3\<rparr>)
       \<and> Maneuver_apply canonical maneuver unit_orbit = (None, orbit')
       \<and> apocenter_radius orbit' = 2
       \<and> orbit_e orbit' = 0
       \<and> orbit_t orbit' = pi)"
proof -
  let ?transfer = "unit_orbit\<lparr>orbit_a := 3 / 2, orbit_e := 1 / 3\<rparr>"
  have T: "orbit_T canonical ?transfer = 2 * pi" and n: "orbit_n canonical ?transfer = 1"
    and f: "orbit_f canonical unit_orbit = 0" and m: "mean_anomaly_from_true canonical 0 0 = 0"
    by (simp_all add: canonical_def unit_orbit_def)
  have tr: "?transfer = unit_orbit\<lparr>orbit_a := (2 + 1) / 2, orbit_e := (2 - 1) / (2 + 1),
                                    orbit_M := 0, orbit_arg_pe := orbit_f canonical unit_orbit\<rparr>"
    by (simp add: f) (simp add: unit_orbit_def)
  have "\<exists>maneuver orbit'.
           hohmann_transfer_to (unit_orbit\<lparr>orbit_a := 2\<rparr>) = Inr maneuver
         \<and> operations maneuver =
             [SetPericenterHere, SetApocenterRadiusTo (apocenter_radius (unit_orbit\<lparr>orbit_a := 2\<rparr>)),
              PropagateAnomalyTo Key_M pi, Circularise True]
         \<and> apply_operations canonical (take 2 (operations maneuver)) unit_orbit = (None, ?transfer)
         \<and> Maneuver_apply canonical maneuver unit_orbit = (None, orbit')
         \<and> apocenter_radius orbit' = 2
         \<and> orbit_e orbit' = 0
         \<and> orbit_t orbit' = orbit_t unit_orbit + orbit_T canonical ?transfer / 2"
  proof (rule hohmann_transfer[where ?r1.0 = 1 and ?r2.0 = 2, OF _ _ _ _ _ _ m tr])
    show "0 < orbit_T canonical ?transfer"
      by (simp add: T)
    show "orbit_n canonical ?transfer = 2 * pi / orbit_T canonical ?transfer"
      by (simp add: T n)
  qed (simp_all add: unit_orbit_def)
  then show ?thesis
    by (simp add: T n m) (auto simp: unit_orbit_def)
qed

text \<open>
  C8. \<^verbatim>\<open>Maneuver.bielliptic_transfer()\<close> raises \<^verbatim>\<open>NotImplementedError\<close> and returns no
  maneuver; it takes no orbit, so there is none it could rewrite.
\<close>

theorem bielliptic_transfer_raises:
  "bielliptic_transfer = Inl NotImplementedError
   \<and> (\<nexists>maneuver. bielliptic_transfer = Inr maneuver)"
  by (simp add: bielliptic_transfer_def)

section \<open>The velocity branch of a maneuver\<close>

lemma time_delta_without_v:
  "time_delta (C\<lparr>orbit_v := getter, set_orbit_v := setter\<rparr>) operation orbit
     = time_delta C operation orbit"
  by (cases operation)
     (simp_all add: PropagateAnomalyTo_time_delta_def PropagateAnomalyBy_time_delta_def
        split_beta split: anomaly_key.splits sum.splits)

lemma apply_direct_without_v:
  "apply_direct (C\<lparr>orbit_v := getter, set_orbit_v := setter\<rparr>) operation orbit
     = apply_direct C operation orbit"
  by (cases operation) (simp_all add: set_orbit_f_def)

lemma set_orbit_t_without_v:
  "set_orbit_t (C\<lparr>orbit_v := getter, set_orbit_v := setter\<rparr>) x orbit = set_orbit_t C x orbit"
  by (simp add: set_orbit_t_def)

lemma apply_operation_without_v:
  "in_module operation \<Longrightarrow>
     apply_operation (C\<lparr>orbit_v := getter, set_orbit_v := setter\<rparr>) operation orbit
       = apply_operation C operation orbit"
  by (cases operation)
     (simp_all add: apply_operation_def time_delta_without_v apply_direct_without_v
        set_orbit_t_without_v del: time_delta.simps apply_direct.simps split: sum.splits)

lemma apply_operations_without_v:
  "list_all in_module ops \<Longrightarrow>
     apply_operations (C\<lparr>orbit_v := getter, set_orbit_v := setter\<rparr>) ops orbit
       = apply_operations C ops orbit"
  by (induction ops arbitrary: orbit)
     (simp_all add: apply_operation_without_v split: prod.splits option.splits)

lemma module_impulse_has_apply:
  "in_module operation \<Longrightarrow> is_ImpulseOperation operation \<Longrightarrow> has_apply operation"
  by (cases operation) simp_all

text \<open>
  C9. Every impulse operation of the module defines \<^verbatim>\<open>__apply__\<close>, and the loop of
  \<^verbatim>\<open>Maneuver.__apply__\<close> tests for it first. So for a maneuver of the module's operations
  only, no operation reaches the velocity branch, and the result of applying it is the
  same whatever the getter and the setter of \<^verbatim>\<open>orbit.v\<close> are: the velocity is neither read
  nor written. An impulse operation without \<^verbatim>\<open>__apply__\<close> does reach the branch, and the
  orbit's velocity is then set to its old value plus the delta.
\<close>

theorem module_maneuver_never_writes_v:
  assumes "list_all in_module (operations maneuver)"
  shows "list_all (\<lambda>operation. is_ImpulseOperation operation \<longrightarrow> has_apply operation)
           (operations maneuver)
       \<and> Maneuver_apply (C\<lparr>orbit_v := getter, set_orbit_v := setter\<rparr>) maneuver orbit
           = Maneuver_apply C maneuver orbit
       \<and> apply_operation C (OtherImpulse dv) orbit
           = (None, set_orbit_v C (orbit_v C orbit + dv orbit) orbit)"
  using assms
  by (auto simp: Maneuver_apply_def apply_operations_without_v list_all_iff
        module_impulse_has_apply apply_operation_def)

theorem module_maneuver_never_writes_v_witness:
  "list_all in_module
     (operations (Maneuver [SetPericenterHere, SetApocenterRadiusTo 2,
                            PropagateAnomalyTo Key_M pi, Circularise True :: real operation]))
   \<and> Maneuver_apply
       (canonical\<lparr>orbit_v := (\<lambda>orbit. 0), set_orbit_v := (\<lambda>v orbit. orbit\<lparr>orbit_a := v\<rparr>)\<rparr>)
       (Maneuver [SetPericenterHere, SetApocenterRadiusTo 2,
                  PropagateAnomalyTo Key_M pi, Circularise True]) unit_orbit
     = Maneuver_apply canonical
         (Maneuver [SetPericenterHere, SetApocenterRadiusTo 2,
                    PropagateAnomalyTo Key_M pi, Circularise True]) unit_orbit"
proof -
  let ?m = "Maneuver [SetPericenterHere, SetApocenterRadiusTo 2,
                      PropagateAnomalyTo Key_M pi, Circularise True :: real operation]"
  have mod: "list_all in_module (operations ?m)"
    by simp
  from module_maneuver_never_writes_v[OF mod] mod show ?thesis
    by blast
qed


end
